theory Spec2Isabelle
  imports Complex_Main "HOL-Library.Multiset" "HOL-Library.Sublist" "HOL-Library.AList"
begin

section \<open>Python values, errors and builtins\<close>

text \<open>
  The sources are Python. A value that the code handles without fixing its type (the
  free flags, the attributes of a fit result, the elements of an energy bin) is a
  \<open>pyval\<close>: a \<open>str\<close>, an \<open>int\<close> or a \<open>float\<close> (a real number here: no rounding
  takes place in the code under study, floats are only compared and passed on).
  Strings are lists of 8-bit characters; only ASCII white space and digits are modelled.
  Every raise and every \<open>exit(1)\<close> is a value of \<open>pyerror\<close>, and a fallible computation
  returns \<open>pyerror + 'a\<close> with \<open>Inl\<close> for the error.
\<close>

datatype pyval = PyStr string | PyInt int | PyFloat real

datatype pyerror = TypeError | ValueError | IndexError | AttributeError | NameError
  | SystemExit int

fun r_bind :: "pyerror + 'a \<Rightarrow> ('a \<Rightarrow> pyerror + 'b) \<Rightarrow> pyerror + 'b" where
  "r_bind (Inl e) f = Inl e"
| "r_bind (Inr v) f = f v"

text \<open>A comprehension \<open>[f(x) for x in xs]\<close>: left to right, the first raise wins.\<close>

fun r_map :: "('a \<Rightarrow> pyerror + 'b) \<Rightarrow> 'a list \<Rightarrow> pyerror + 'b list" where
  "r_map f [] = Inr []"
| "r_map f (x # xs) = r_bind (f x) (\<lambda>y. r_bind (r_map f xs) (\<lambda>ys. Inr (y # ys)))"

text \<open>Python's \<open>==\<close>: numbers compare by value, a string never equals a number.\<close>

fun py_eq :: "pyval \<Rightarrow> pyval \<Rightarrow> bool" where
  "py_eq (PyStr a) (PyStr b) = (a = b)"
| "py_eq (PyInt a) (PyInt b) = (a = b)"
| "py_eq (PyInt a) (PyFloat b) = (real_of_int a = b)"
| "py_eq (PyFloat a) (PyInt b) = (a = real_of_int b)"
| "py_eq (PyFloat a) (PyFloat b) = (a = b)"
| "py_eq (PyStr a) (PyInt b) = False"
| "py_eq (PyStr a) (PyFloat b) = False"
| "py_eq (PyInt a) (PyStr b) = False"
| "py_eq (PyFloat a) (PyStr b) = False"

text \<open>Python's \<open>+\<close>: concatenation of strings, addition of numbers, TypeError otherwise.\<close>

fun py_add :: "pyval \<Rightarrow> pyval \<Rightarrow> pyerror + pyval" where
  "py_add (PyStr a) (PyStr b) = Inr (PyStr (a @ b))"
| "py_add (PyInt a) (PyInt b) = Inr (PyInt (a + b))"
| "py_add (PyInt a) (PyFloat b) = Inr (PyFloat (real_of_int a + b))"
| "py_add (PyFloat a) (PyInt b) = Inr (PyFloat (a + real_of_int b))"
| "py_add (PyFloat a) (PyFloat b) = Inr (PyFloat (a + b))"
| "py_add (PyStr a) (PyInt b) = Inl TypeError"
| "py_add (PyStr a) (PyFloat b) = Inl TypeError"
| "py_add (PyInt a) (PyStr b) = Inl TypeError"
| "py_add (PyFloat a) (PyStr b) = Inl TypeError"

fun is_number :: "pyval \<Rightarrow> bool" where
  "is_number (PyStr s) = False"
| "is_number (PyInt i) = True"
| "is_number (PyFloat r) = True"

subsection \<open>White space, \<open>str.strip\<close> and \<open>str.split\<close>\<close>

definition py_isspace :: "char \<Rightarrow> bool" where
  "py_isspace c = (c \<in> set [CHR '' '', CHR 0x09, CHR 0x0A, CHR 0x0B, CHR 0x0C, CHR 0x0D,
                              CHR 0x1C, CHR 0x1D, CHR 0x1E, CHR 0x1F])"

definition strip :: "string \<Rightarrow> string" where
  "strip s = rev (dropWhile py_isspace (rev (dropWhile py_isspace s)))"

text \<open>\<open>s.split(sep)\<close> for a non-empty separator: leftmost matches, never overlapping;
  the result always has at least one element.\<close>

function split :: "string \<Rightarrow> string \<Rightarrow> string list" where
  "split sep [] = [[]]"
| "split sep (c # cs) =
     (if sep \<noteq> [] \<and> take (length sep) (c # cs) = sep
      then [] # split sep (drop (length sep) (c # cs))
      else (case split sep cs of w # ws \<Rightarrow> (c # w) # ws | [] \<Rightarrow> [[c]]))"
  by pat_completeness auto
termination
  by (relation "measure (\<lambda>(sep, s). length s)") (auto simp: Suc_le_eq)

subsection \<open>\<open>int(s, base)\<close> and \<open>str(n)\<close>\<close>

definition digit_value :: "char \<Rightarrow> nat option" where
  "digit_value c = map_of (zip ''0123456789'' [0, 1, 2, 3, 4, 5, 6, 7, 8, 9]) c"

text \<open>The digits of a literal in base \<open>b \<le> 10\<close>. A single underscore may stand between
  two digits; \<open>prev\<close> tells whether the character before was a digit.\<close>

fun scan_digits :: "nat \<Rightarrow> bool \<Rightarrow> nat \<Rightarrow> string \<Rightarrow> nat option" where
  "scan_digits b prev acc [] = (if prev then Some acc else None)"
| "scan_digits b prev acc (c # cs) =
     (if c = CHR ''_'' then (if prev then scan_digits b False acc cs else None)
      else (case digit_value c of
              None \<Rightarrow> None
            | Some d \<Rightarrow> if d < b then scan_digits b True (acc * b + d) cs else None))"

definition strip_sign :: "string \<Rightarrow> bool \<times> string" where
  "strip_sign s =
     (case s of
        [] \<Rightarrow> (False, [])
      | c # r \<Rightarrow> if c = CHR ''+'' then (False, r)
                 else if c = CHR ''-'' then (True, r) else (False, s))"

definition strip_prefix_0b :: "string \<Rightarrow> string" where
  "strip_prefix_0b s =
     (if take 2 s = ''0b'' \<or> take 2 s = ''0B''
      then (case drop 2 s of c # r \<Rightarrow> if c = CHR ''_'' then r else c # r | [] \<Rightarrow> [])
      else s)"

text \<open>\<open>int(s, b)\<close> on a string, for \<open>b = 2\<close> and \<open>b = 10\<close>: white space around, a sign,
  for base 2 the prefix \<open>0b\<close>, then the digits; ValueError otherwise.\<close>

definition py_int_str :: "nat \<Rightarrow> string \<Rightarrow> pyerror + int" where
  "py_int_str b s =
     (case strip_sign (strip s) of
        (neg, u) \<Rightarrow>
          (case scan_digits b False 0 (if b = 2 then strip_prefix_0b u else u) of
             None \<Rightarrow> Inl ValueError
           | Some n \<Rightarrow> Inr (if neg then - int n else int n)))"

text \<open>\<open>int(x, 2)\<close>: an explicit base needs a string.\<close>

fun py_int_base2 :: "pyval \<Rightarrow> pyerror + int" where
  "py_int_base2 (PyStr s) = py_int_str 2 s"
| "py_int_base2 (PyInt i) = Inl TypeError"
| "py_int_base2 (PyFloat r) = Inl TypeError"


definition digit_char :: "nat \<Rightarrow> char" where
  "digit_char d = ''0123456789'' ! d"

function str_nat :: "nat \<Rightarrow> string" where
  "str_nat n = (if n < 10 then [digit_char n] else str_nat (n div 10) @ [digit_char (n mod 10)])"
  by pat_completeness auto
termination
  by (relation "measure id") auto

declare str_nat.simps [simp del]

definition py_str_int :: "int \<Rightarrow> string" where
  "py_str_int i = (if i < 0 then CHR ''-'' # str_nat (nat (- i)) else str_nat (nat i))"

section \<open>Parameters.checkEnergyBin\<close>



section \<open>The data model of the sources library\<close>

text \<open>
  The classes \<open>Parameter\<close>, \<open>Spectrum\<close>, \<open>SpatialModel\<close>, \<open>Source\<close> and \<open>MultiOutput\<close>
  are built by \<open>_parseSourceXml\<close> from the attributes of the XML elements, which are
  strings. The free flags are kept as \<open>pyval\<close>: \<open>_computeFixFlag\<close> both compares them with
  integers and concatenates them. A fit result (\<open>source.multi\<close>) is the association list of
  its attributes, read with \<open>getattr\<close>; \<open>None\<close> is the unset one.
\<close>

record parameter =
  pname :: string
  pvalue :: string
  pmin :: string
  pmax :: string
  pfree :: pyval

record spectrum =
  stype :: string
  sparameters :: "parameter list"

record spatialModel =
  location_limit :: string
  free :: pyval
  parameters :: "parameter list"

type_synonym multiOutput = "(string \<times> pyval) list"

record source =
  name :: string
  spectrum :: spectrum
  spatialModel :: spatialModel
  multi :: "multiOutput option"

text \<open>
  What \<open>SourcesLibrary.py\<close> uses from modules that are not part of the sources is a
  parameter of the model: the registries \<open>getSelectionParams()\<close>,
  \<open>getSelectionParams(multi=True)\<close> and \<open>getFreeParams()\<close> of the catalog, the accessors
  \<open>getFreeAttributeValueOf("name", n)\<close> of a spectrum and \<open>setFreeAttributeValueOf\<close> of a
  source, \<open>Astro.distance\<close>, and the builtin \<open>float\<close> on strings.
\<close>

record env =
  getSelectionParams :: "string list"
  getSelectionParamsMulti :: "string list"
  getFreeParams :: "string list"
  getFreeAttributeValueOf :: "spectrum \<Rightarrow> string \<Rightarrow> pyerror + pyval"
  setFreeAttributeValueOf :: "string \<Rightarrow> bool \<Rightarrow> source \<Rightarrow> source"
  Astro_distance :: "real \<Rightarrow> real \<Rightarrow> real \<Rightarrow> real \<Rightarrow> real"
  float_of_str :: "string \<Rightarrow> real option"

text \<open>\<open>float(x)\<close>.\<close>

fun py_float :: "env \<Rightarrow> pyval \<Rightarrow> pyerror + real" where
  "py_float E (PyFloat r) = Inr r"
| "py_float E (PyInt i) = Inr (real_of_int i)"
| "py_float E (PyStr s) = (case float_of_str E s of None \<Rightarrow> Inl ValueError | Some r \<Rightarrow> Inr r)"

text \<open>\<open>xs.pop()\<close> of a list built on the spot: its last element, IndexError when empty.\<close>

definition pop_last :: "'a list \<Rightarrow> pyerror + 'a" where
  "pop_last xs = (case rev xs of [] \<Rightarrow> Inl IndexError | x # _ \<Rightarrow> Inr x)"

text \<open>
  Modelled from the spec: \<open>getParamAttributeWhere(attribute, "name", n)\<close> is a method of
  the classes in \<open>agilepy.dataclasses.Source\<close>, which is missing from the sources. It returns
  the attribute of the parameter called \<open>n\<close>, and a missing parameter is a fatal error. It
  is written as the flux lookup of \<open>_convertToAgileFormat\<close>, which is in the sources:
  \<open>[param.value for param in parameters if param.name == "Flux"].pop()\<close>.
\<close>

definition getParamAttributeWhere ::
    "parameter list \<Rightarrow> (parameter \<Rightarrow> string) \<Rightarrow> string \<Rightarrow> pyerror + string" where
  "getParamAttributeWhere ps attribute n =
     pop_last (map attribute (filter (\<lambda>param. pname param = n) ps))"

section \<open>The text encoder\<close>

subsection \<open>\<open>_computeFixFlag\<close>\<close>

text \<open>\<open>a + x1 + x2 + ...\<close>: each operand is evaluated, then added to the sum so far.\<close>

fun py_sum :: "pyval \<Rightarrow> (pyerror + pyval) list \<Rightarrow> pyerror + pyval" where
  "py_sum acc [] = Inr acc"
| "py_sum acc (x # xs) = r_bind x (\<lambda>v. r_bind (py_add acc v) (\<lambda>acc'. py_sum acc' xs))"

definition computeFixFlag :: "env \<Rightarrow> source \<Rightarrow> pyerror + string" where
  "computeFixFlag E src =
     (let flag = getFreeAttributeValueOf E (spectrum src);
          spatialFree = free (spatialModel src)
      in r_bind (flag ''Flux'') (\<lambda>flux.
           if py_eq flux (PyInt 0) then Inr ''0''
           else r_bind
             (if py_eq spatialFree (PyInt 2)
              then py_sum spatialFree
                     [flag ''Curvature'', flag ''Index2'', flag ''CutoffEnergy'',
                      flag ''PivotEnergy'', flag ''Index'', flag ''Index1'',
                      Inr (PyStr ''0''), flag ''Flux'']
              else r_bind (flag ''Curvature'') (\<lambda>curvature.
                     py_sum curvature
                       [flag ''Index2'', flag ''CutoffEnergy'', flag ''PivotEnergy'',
                        flag ''Index'', flag ''Index1'', Inr spatialFree, flag ''Flux'']))
             (\<lambda>bitmask. r_bind (py_int_base2 bitmask) (\<lambda>fixflag. Inr (py_str_int fixflag)))))"

subsection \<open>\<open>_convertToAgileFormat\<close>\<close>

definition family_values :: "source \<Rightarrow> pyerror + string" where
  "family_values src =
     (let ty = stype (spectrum src); get = getParamAttributeWhere (sparameters (spectrum src))
      in if ty = ''PowerLaw'' then Inr ''0 0 0 ''
         else if ty = ''PLExpCutoff'' then
           r_bind (get pvalue ''CutoffEnergy'') (\<lambda>cutoffenergy.
             Inr (''1 '' @ cutoffenergy @ '' 0 ''))
         else if ty = ''PLSuperExpCutoff'' then
           r_bind (get pvalue ''CutoffEnergy'') (\<lambda>cutoffenergy.
           r_bind (get pvalue ''Index2'') (\<lambda>index2.
             Inr (''2 '' @ cutoffenergy @ '' '' @ index2 @ '' '')))
         else
           r_bind (get pvalue ''PivotEnergy'') (\<lambda>pivotenergy.
           r_bind (get pvalue ''Curvature'') (\<lambda>curvature.
             Inr (''3 '' @ pivotenergy @ '' '' @ curvature @ '' ''))))"

definition min_max :: "source \<Rightarrow> string \<Rightarrow> pyerror + string" where
  "min_max src n =
     (let get = getParamAttributeWhere (sparameters (spectrum src))
      in r_bind (get pmin n) (\<lambda>lo. r_bind (get pmax n) (\<lambda>hi. Inr (lo @ '' '' @ hi))))"

definition index_bounds :: "source \<Rightarrow> pyerror + string" where
  "index_bounds src =
     r_bind (min_max src (if stype (spectrum src) = ''PLSuperExpCutoff'' then ''Index1''
                          else ''Index''))
       (\<lambda>b. Inr (b @ '' ''))"

definition family_bounds :: "source \<Rightarrow> pyerror + string" where
  "family_bounds src =
     (let ty = stype (spectrum src)
      in if ty = ''PowerLaw'' then Inr ''-1 -1 -1 -1''
         else if ty = ''PLExpCutoff'' then
           r_bind (min_max src ''CutoffEnergy'') (\<lambda>c. Inr (c @ '' '' @ '' -1 -1''))
         else if ty = ''PLSuperExpCutoff'' then
           r_bind (min_max src ''CutoffEnergy'') (\<lambda>c.
           r_bind (min_max src ''Index2'') (\<lambda>i. Inr (c @ '' '' @ i)))
         else
           r_bind (min_max src ''PivotEnergy'') (\<lambda>p.
           r_bind (min_max src ''Curvature'') (\<lambda>c. Inr (p @ '' '' @ c))))"

text \<open>The body of the loop of \<open>_convertToAgileFormat\<close>: what one source adds to
  \<open>sourceStr\<close>.\<close>

definition convertSource :: "env \<Rightarrow> source \<Rightarrow> pyerror + string" where
  "convertSource E src =
     (let sp = spectrum src; sm = spatialModel src
      in r_bind (pop_last (map pvalue (filter (\<lambda>param. pname param = ''Flux'') (sparameters sp))))
           (\<lambda>flux.
         r_bind (getParamAttributeWhere (parameters sm) pvalue ''GLON'') (\<lambda>glon.
         r_bind (getParamAttributeWhere (parameters sm) pvalue ''GLAT'') (\<lambda>glat.
         r_bind (getParamAttributeWhere (sparameters sp) pvalue
                   (if stype sp = ''PLSuperExpCutoff'' then ''Index1'' else ''Index''))
           (\<lambda>index.
         r_bind (computeFixFlag E src) (\<lambda>fixflag.
         r_bind (family_values src) (\<lambda>fam.
         r_bind (index_bounds src) (\<lambda>ib.
         r_bind (family_bounds src) (\<lambda>fb.
           Inr (flux @ '' '' @ glon @ '' '' @ glat @ '' '' @ index @ '' '' @ fixflag @ '' ''
                @ ''2 '' @ name src @ '' '' @ location_limit sm @ '' '' @ fam @ ib @ fb
                @ [CHR 0x0A]))))))))))"

definition convertToAgileFormat :: "env \<Rightarrow> source list \<Rightarrow> pyerror + string" where
  "convertToAgileFormat E sources = r_bind (r_map (convertSource E) sources) (\<lambda>ls. Inr (concat ls))"

section \<open>The selection engine\<close>

text \<open>
  A selection lambda is known through \<open>signature(selectionLambda).parameters\<close>, the names
  of its formal parameters, and through what a call with positional arguments does: it
  raises, or it returns a value of which only the truth is used.
\<close>

record selectionLambda =
  signature_parameters :: "string list"
  call :: "pyval list \<Rightarrow> pyerror + bool"

datatype logmsg = WarnNotSupported string | WarnNoSelectionParams

text \<open>What a run of \<open>selectSourcesWithLambda\<close> does: the warnings it logs, the argument
  lists with which it calls the lambda, in order, and what it returns or raises.\<close>

record selection =
  warnings :: "logmsg list"
  invocations :: "pyval list list"
  selected :: "pyerror + source list"

definition needMultiParams :: "env \<Rightarrow> string list \<Rightarrow> bool" where
  "needMultiParams E validatedUserSelectionParams =
     list_ex (\<lambda>p. p \<in> set (getSelectionParamsMulti E)) validatedUserSelectionParams"

definition validateSelectionParams :: "env \<Rightarrow> string list \<Rightarrow> logmsg list \<times> string list" where
  "validateSelectionParams E userSelectionParams =
     (map WarnNotSupported (filter (\<lambda>up. up \<notin> set (getSelectionParams E)) userSelectionParams),
      filter (\<lambda>param. param \<in> set (getSelectionParams E)) userSelectionParams)"

text \<open>\<open>getattr(source, "name")\<close> for \<open>Name\<close>, \<open>float(getattr(source.multi, param))\<close> for any
  other name; \<open>getattr\<close> on \<open>None\<close> or for a missing attribute raises AttributeError.\<close>

definition paramValue :: "env \<Rightarrow> source \<Rightarrow> string \<Rightarrow> pyerror + pyval" where
  "paramValue E src param =
     (if param = ''Name'' then Inr (PyStr (name src))
      else (case multi src of
              None \<Rightarrow> Inl AttributeError
            | Some m \<Rightarrow>
                (case map_of m param of
                   None \<Rightarrow> Inl AttributeError
                 | Some v \<Rightarrow> r_bind (py_float E v) (\<lambda>r. Inr (PyFloat r)))))"

definition skipped :: "env \<Rightarrow> string list \<Rightarrow> source \<Rightarrow> bool" where
  "skipped E validated src = (needMultiParams E validated \<and> multi src = None)"

fun selectLoop ::
    "env \<Rightarrow> selectionLambda \<Rightarrow> string list \<Rightarrow> source list
      \<Rightarrow> pyval list list \<times> (pyerror + source list)" where
  "selectLoop E f validated [] = ([], Inr [])"
| "selectLoop E f validated (src # rest) =
     (if skipped E validated src then selectLoop E f validated rest
      else (case r_map (paramValue E src) validated of
              Inl e \<Rightarrow> ([], Inl e)
            | Inr selectionParamsValues \<Rightarrow>
                (case call f selectionParamsValues of
                   Inl e \<Rightarrow> ([selectionParamsValues], Inl e)
                 | Inr b \<Rightarrow>
                     (case selectLoop E f validated rest of
                        (calls, r) \<Rightarrow>
                          (selectionParamsValues # calls,
                           r_bind r (\<lambda>sources. Inr (if b then src # sources else sources)))))))"

definition selectSourcesWithLambda :: "env \<Rightarrow> selectionLambda \<Rightarrow> source list \<Rightarrow> selection" where
  "selectSourcesWithLambda E f sources =
     (case validateSelectionParams E (signature_parameters f) of
        (ws, validated) \<Rightarrow>
          if length validated = 0
          then \<lparr>warnings = ws @ [WarnNoSelectionParams], invocations = [], selected = Inr []\<rparr>
          else (case selectLoop E f validated sources of
                  (calls, r) \<Rightarrow> \<lparr>warnings = ws, invocations = calls, selected = r\<rparr>))"


text \<open>
  In the words of the specification: the validated parameters of a lambda are its
  parameters that are in the registry; a source is eligible unless a validated parameter
  needs \<open>multi\<close> and the source has none; a source satisfies the lambda when it is
  eligible, its values resolve and the lambda returns true on them.
\<close>

definition validated_params :: "env \<Rightarrow> selectionLambda \<Rightarrow> string list" where
  "validated_params E f = filter (\<lambda>p. p \<in> set (getSelectionParams E)) (signature_parameters f)"

definition eligible :: "env \<Rightarrow> selectionLambda \<Rightarrow> source \<Rightarrow> bool" where
  "eligible E f src = (\<not> skipped E (validated_params E f) src)"

definition passes :: "env \<Rightarrow> selectionLambda \<Rightarrow> string list \<Rightarrow> source \<Rightarrow> bool" where
  "passes E f validated src =
     (\<not> skipped E validated src
      \<and> (case r_map (paramValue E src) validated of
            Inl e \<Rightarrow> False
          | Inr args \<Rightarrow> (case call f args of Inl e \<Rightarrow> False | Inr b \<Rightarrow> b)))"

definition satisfies :: "env \<Rightarrow> selectionLambda \<Rightarrow> source \<Rightarrow> bool" where
  "satisfies E f src =
     (validated_params E f \<noteq> [] \<and> passes E f (validated_params E f) src)"

text \<open>The position of a source can be read: its spatial model holds GLON and GLAT with
  values that \<open>float\<close> accepts.\<close>

definition positionReadable :: "env \<Rightarrow> source \<Rightarrow> bool" where
  "positionReadable E src =
     list_all (\<lambda>n. case getParamAttributeWhere (parameters (spatialModel src)) pvalue n of
                     Inl e \<Rightarrow> False
                   | Inr v \<Rightarrow> float_of_str E v \<noteq> None) [''GLON'', ''GLAT'']"

text \<open>The coordinate used for the distance: the fitted one, or the initial one when the
  fitted one is the sentinel \<open>-1\<close>.\<close>

definition resolved :: "real \<Rightarrow> real \<Rightarrow> real" where
  "resolved fitted initial = (if fitted = - 1 then initial else fitted)"

section \<open>The mutators\<close>

text \<open>
  The catalog is the list \<open>sourcesLibrary.sources\<close>; a mutator takes it and returns it
  beside its result. A source that Python mutates in place is replaced in the list.
  \<open>s in sources\<close> compares with \<open>==\<close>, which is the equality of all fields for the
  dataclass \<open>Source\<close>.
\<close>


definition deleteSources ::
    "env \<Rightarrow> selectionLambda \<Rightarrow> source list \<Rightarrow> (pyerror + source list) \<times> source list" where
  "deleteSources E f catalog =
     (case selected (selectSourcesWithLambda E f catalog) of
        Inl e \<Rightarrow> (Inl e, catalog)
      | Inr sourcesToBeDeleted \<Rightarrow>
          (Inr sourcesToBeDeleted, filter (\<lambda>s. s \<notin> set sourcesToBeDeleted) catalog))"

subsection \<open>\<open>updateMulti\<close>\<close>

text \<open>\<open>lambda Name : Name == data.label\<close>.\<close>

definition nameIsLabel :: "multiOutput \<Rightarrow> selectionLambda" where
  "nameIsLabel data =
     \<lparr>signature_parameters = [''Name''],
      call = (\<lambda>args. case args of
                [Name] \<Rightarrow> (case map_of data ''label'' of
                             None \<Rightarrow> Inl AttributeError
                           | Some label \<Rightarrow> Inr (py_eq Name label))
              | _ \<Rightarrow> Inl TypeError)\<rparr>"

definition attrFloat :: "env \<Rightarrow> multiOutput \<Rightarrow> string \<Rightarrow> pyerror + real" where
  "attrFloat E data a =
     (case map_of data a of None \<Rightarrow> Inl AttributeError | Some v \<Rightarrow> py_float E v)"

text \<open>One turn of the loop over \<open>sourcesFound\<close>, after \<open>sourceFound.multi = data\<close>: the fit
  result with \<open>Dist\<close> set, or the error raised on the way.\<close>

definition updateDist ::
    "env \<Rightarrow> real \<Rightarrow> real \<Rightarrow> multiOutput \<Rightarrow> source \<Rightarrow> pyerror + multiOutput" where
  "updateDist E mapCenterL mapCenterB data sourceFound =
     r_bind (r_bind (getParamAttributeWhere (parameters (spatialModel sourceFound)) pvalue ''GLON'')
               (\<lambda>v. py_float E (PyStr v))) (\<lambda>modelL.
     r_bind (r_bind (getParamAttributeWhere (parameters (spatialModel sourceFound)) pvalue ''GLAT'')
               (\<lambda>v. py_float E (PyStr v))) (\<lambda>modelB.
     r_bind (attrFloat E data ''L'') (\<lambda>sourceL.
     r_bind (attrFloat E data ''B'') (\<lambda>sourceB.
     r_bind (if sourceL = - 1 then attrFloat E data ''start_l'' else Inr sourceL) (\<lambda>sourceL.
     r_bind (if sourceB = - 1 then attrFloat E data ''start_b'' else Inr sourceB) (\<lambda>sourceB.
       Inr (AList.update ''Dist''
              (PyFloat (Astro_distance E sourceL sourceB mapCenterL mapCenterB)) data)))))))"

text \<open>The loop: how many of the found sources had \<open>multi\<close> assigned, the fit result at
  the end (all of them hold the same object), and the error that stopped the loop.\<close>

fun updateLoop ::
    "env \<Rightarrow> real \<Rightarrow> real \<Rightarrow> multiOutput \<Rightarrow> source list
      \<Rightarrow> nat \<times> multiOutput \<times> pyerror option" where
  "updateLoop E mapCenterL mapCenterB data [] = (0, data, None)"
| "updateLoop E mapCenterL mapCenterB data (sourceFound # rest) =
     (case updateDist E mapCenterL mapCenterB data sourceFound of
        Inl e \<Rightarrow> (1, data, Some e)
      | Inr data' \<Rightarrow>
          (case updateLoop E mapCenterL mapCenterB data' rest of
             (k, data'', e) \<Rightarrow> (Suc k, data'', e)))"

text \<open>The catalog after the loop: the first \<open>k\<close> found sources hold the fit result.\<close>

fun attachMulti :: "nat \<Rightarrow> multiOutput \<Rightarrow> source list \<Rightarrow> source list \<Rightarrow> source list" where
  "attachMulti k data sourcesFound [] = []"
| "attachMulti k data sourcesFound (s # rest) =
     (if s \<in> set sourcesFound \<and> 0 < k
      then s\<lparr>multi := Some data\<rparr> # attachMulti (k - 1) data sourcesFound rest
      else s # attachMulti k data sourcesFound rest)"

text \<open>\<open>updateMulti\<close> returns nothing; the model returns the outcome, the fit result
  \<open>data\<close> as the call leaves it, and the catalog.\<close>

definition updateMulti ::
    "env \<Rightarrow> multiOutput \<Rightarrow> real \<Rightarrow> real \<Rightarrow> source list
      \<Rightarrow> (pyerror + unit) \<times> multiOutput \<times> source list" where
  "updateMulti E data mapCenterL mapCenterB catalog =
     (case selected (selectSourcesWithLambda E (nameIsLabel data) catalog) of
        Inl e \<Rightarrow> (Inl e, data, catalog)
      | Inr sourcesFound \<Rightarrow>
          if length sourcesFound = 0 then (Inl (SystemExit 1), data, catalog)
          else (case updateLoop E mapCenterL mapCenterB data sourcesFound of
                  (k, data', err) \<Rightarrow>
                    ((case err of None \<Rightarrow> Inr () | Some e \<Rightarrow> Inl e), data',
                     attachMulti k data' sourcesFound catalog)))"

section \<open>The parser of the fitter's output\<close>














section \<open>The format of the encoded text, in the words of the specification\<close>

text \<open>
  The specification lists the fields of a line. \<open>paramAttribute\<close> is the attribute of a
  parameter that is known to be there; \<open>spec_fields\<close> is the list of the fields of the
  line of one source, given its packed bitmask; \<open>spaced\<close> writes fields with the given
  numbers of blanks between them.
\<close>

definition paramAttribute :: "parameter list \<Rightarrow> (parameter \<Rightarrow> string) \<Rightarrow> string \<Rightarrow> string" where
  "paramAttribute ps attribute n =
     (case rev (filter (\<lambda>param. pname param = n) ps) of [] \<Rightarrow> [] | param # _ \<Rightarrow> attribute param)"

definition spec_index_name :: "source \<Rightarrow> string" where
  "spec_index_name src =
     (if stype (spectrum src) = ''PLSuperExpCutoff'' then ''Index1'' else ''Index'')"

definition spec_fields :: "(source \<Rightarrow> string) \<Rightarrow> source \<Rightarrow> string list" where
  "spec_fields bitmask src =
     (let ty = stype (spectrum src);
          v = paramAttribute (sparameters (spectrum src)) pvalue;
          lo = paramAttribute (sparameters (spectrum src)) pmin;
          hi = paramAttribute (sparameters (spectrum src)) pmax;
          pos = paramAttribute (parameters (spatialModel src)) pvalue
      in [v ''Flux'', pos ''GLON'', pos ''GLAT'', v (spec_index_name src), bitmask src, ''2'',
          name src, location_limit (spatialModel src)]
         @ (if ty = ''PowerLaw'' then [''0'', ''0'', ''0'']
            else if ty = ''PLExpCutoff'' then [''1'', v ''CutoffEnergy'', ''0'']
            else if ty = ''PLSuperExpCutoff'' then [''2'', v ''CutoffEnergy'', v ''Index2'']
            else [''3'', v ''PivotEnergy'', v ''Curvature''])
         @ [lo (spec_index_name src), hi (spec_index_name src)]
         @ (if ty = ''PowerLaw'' then [''-1'', ''-1'', ''-1'', ''-1'']
            else if ty = ''PLExpCutoff''
              then [lo ''CutoffEnergy'', hi ''CutoffEnergy'', ''-1'', ''-1'']
            else if ty = ''PLSuperExpCutoff''
              then [lo ''CutoffEnergy'', hi ''CutoffEnergy'', lo ''Index2'', hi ''Index2'']
            else [lo ''PivotEnergy'', hi ''PivotEnergy'', lo ''Curvature'', hi ''Curvature'']))"

text \<open>The parameters that the encoder reads for a source: the data model asks that they
  exist.\<close>

definition spec_required :: "source \<Rightarrow> string list" where
  "spec_required src =
     (let ty = stype (spectrum src)
      in ''Flux'' # spec_index_name src #
         (if ty = ''PowerLaw'' then []
          else if ty = ''PLExpCutoff'' then [''CutoffEnergy'']
          else if ty = ''PLSuperExpCutoff'' then [''CutoffEnergy'', ''Index2'']
          else [''PivotEnergy'', ''Curvature'']))"

definition encodable :: "source \<Rightarrow> bool" where
  "encodable src =
     (list_all (\<lambda>n. n \<in> set (map pname (sparameters (spectrum src)))) (spec_required src)
      \<and> list_all (\<lambda>n. n \<in> set (map pname (parameters (spatialModel src)))) [''GLON'', ''GLAT''])"

text \<open>The blanks between the 17 fields: one each, and two before the sentinels of a
  PLExpCutoff line.\<close>

definition spec_gaps :: "source \<Rightarrow> nat list" where
  "spec_gaps src =
     (if stype (spectrum src) = ''PLExpCutoff''
      then [1, 1, 1, 1, 1, 1, 1, 1, 1, 1, 1, 1, 1, 1, 2, 1]
      else [1, 1, 1, 1, 1, 1, 1, 1, 1, 1, 1, 1, 1, 1, 1, 1])"

fun spaced :: "string list \<Rightarrow> nat list \<Rightarrow> string" where
  "spaced [] gaps = []"
| "spaced [f] gaps = f"
| "spaced (f # g # fs) [] = f @ spaced (g # fs) []"
| "spaced (f # g # fs) (k # gaps) = f @ replicate k (CHR '' '') @ spaced (g # fs) gaps"

text \<open>The value of a string of binary digits.\<close>

definition binary_value :: "string \<Rightarrow> nat" where
  "binary_value s = foldl (\<lambda>acc c. 2 * acc + (if c = CHR ''1'' then 1 else 0)) 0 s"

section \<open>Examples\<close>

text \<open>
  An environment to run the model on: the registries of the catalog, an accessor that
  returns the free flag of the parameter with the given name, or \<open>"0"\<close> when there is
  none, a setter that writes the flag as \<open>"1"\<close> or \<open>"0"\<close>, a stand-in for \<open>Astro.distance\<close>
  that can be evaluated, and a \<open>float\<close> that reads integer literals only. The theorems hold
  for every environment; this one serves to run the model on concrete catalogs.
\<close>

definition example_getFree :: "spectrum \<Rightarrow> string \<Rightarrow> pyerror + pyval" where
  "example_getFree sp n =
     (case rev (filter (\<lambda>param. pname param = n) (sparameters sp)) of
        [] \<Rightarrow> Inr (PyStr ''0'')
      | param # _ \<Rightarrow> Inr (pfree param))"

definition example_setFree :: "string \<Rightarrow> bool \<Rightarrow> source \<Rightarrow> source" where
  "example_setFree n fr src =
     src\<lparr>spectrum := (spectrum src)\<lparr>sparameters :=
       map (\<lambda>param. if pname param = n
                     then param\<lparr>pfree := PyStr (if fr then ''1'' else ''0'')\<rparr> else param)
         (sparameters (spectrum src))\<rparr>\<rparr>"

definition example_distance :: "real \<Rightarrow> real \<Rightarrow> real \<Rightarrow> real \<Rightarrow> real" where
  "example_distance l1 b1 l2 b2 = \<bar>l1 - l2\<bar> + \<bar>b1 - b2\<bar>"

definition example_env :: env where
  "example_env =
     \<lparr>getSelectionParams = [''Name'', ''Dist'', ''Flux'', ''SqrtTS''],
      getSelectionParamsMulti = [''Dist'', ''Flux'', ''SqrtTS''],
      getFreeParams = [''Flux'', ''Index'', ''Index1'', ''Index2'', ''CutoffEnergy'',
                       ''PivotEnergy'', ''Curvature''],
      getFreeAttributeValueOf = example_getFree,
      setFreeAttributeValueOf = example_setFree,
      Astro_distance = example_distance,
      float_of_str = (\<lambda>s. case py_int_str 10 s of Inl e \<Rightarrow> None | Inr i \<Rightarrow> Some (real_of_int i))\<rparr>"

definition mk_param :: "string \<Rightarrow> string \<Rightarrow> string \<Rightarrow> string \<Rightarrow> pyval \<Rightarrow> parameter" where
  "mk_param n v lo hi f = \<lparr>pname = n, pvalue = v, pmin = lo, pmax = hi, pfree = f\<rparr>"

text \<open>A power-law point source with the given name and free flags of the flux, of the
  index and of the spatial model.\<close>

definition example_source :: "string \<Rightarrow> pyval \<Rightarrow> pyval \<Rightarrow> pyval \<Rightarrow> source" where
  "example_source n fluxFree indexFree spatialFree =
     \<lparr>name = n,
      spectrum = \<lparr>stype = ''PowerLaw'',
                  sparameters = [mk_param ''Flux'' ''7e-08'' ''0'' ''1'' fluxFree,
                                 mk_param ''Index'' ''2'' ''1'' ''3'' indexFree]\<rparr>,
      spatialModel = \<lparr>location_limit = ''0'', free = spatialFree,
                      parameters = [mk_param ''GLON'' ''80'' ''0'' ''360'' (PyStr ''0''),
                                    mk_param ''GLAT'' ''1'' ''-90'' ''90'' (PyStr ''0'')]\<rparr>,
      multi = None\<rparr>"

text \<open>A source with a cut-off power law.\<close>

definition example_cutoff_source :: source where
  "example_cutoff_source =
     \<lparr>name = ''CRAB'',
      spectrum = \<lparr>stype = ''PLExpCutoff'',
                  sparameters = [mk_param ''Flux'' ''9e-07'' ''0'' ''1'' (PyStr ''1''),
                                 mk_param ''Index'' ''2'' ''1'' ''3'' (PyStr ''0''),
                                 mk_param ''CutoffEnergy'' ''3000'' ''20'' ''10000'' (PyStr ''0'')]\<rparr>,
      spatialModel = \<lparr>location_limit = ''0'', free = PyStr ''0'',
                      parameters = [mk_param ''GLON'' ''184'' ''0'' ''360'' (PyStr ''0''),
                                    mk_param ''GLAT'' ''-5'' ''-90'' ''90'' (PyStr ''0'')]\<rparr>,
      multi = None\<rparr>"

text \<open>\<open>lambda Name, Bogus=0 : Name == "A"\<close>: its second parameter is not in the registry
  and has a default, so a call with the name alone is accepted.\<close>

definition example_lambda_default :: selectionLambda where
  "example_lambda_default =
     \<lparr>signature_parameters = [''Name'', ''Bogus''],
      call = (\<lambda>args. case args of
                [] \<Rightarrow> Inl TypeError
              | [Name] \<Rightarrow> Inr (py_eq Name (PyStr ''A''))
              | [Name, Bogus] \<Rightarrow> Inr (py_eq Name (PyStr ''A''))
              | _ \<Rightarrow> Inl TypeError)\<rparr>"

text \<open>\<open>lambda Bogus : True\<close>.\<close>

definition example_lambda_bogus :: selectionLambda where
  "example_lambda_bogus =
     \<lparr>signature_parameters = [''Bogus''],
      call = (\<lambda>args. case args of [Bogus] \<Rightarrow> Inr True | _ \<Rightarrow> Inl TypeError)\<rparr>"

text \<open>\<open>lambda Name, Dist : Name == "A" and Dist > 5\<close>.\<close>

definition example_lambda_dist :: selectionLambda where
  "example_lambda_dist =
     \<lparr>signature_parameters = [''Name'', ''Dist''],
      call = (\<lambda>args. case args of
                [Name, PyFloat Dist] \<Rightarrow> Inr (py_eq Name (PyStr ''A'') \<and> 5 < Dist)
              | _ \<Rightarrow> Inl TypeError)\<rparr>"

text \<open>A catalog of three sources, two of them called \<open>A\<close>; with fit results, the two
  differ in \<open>Dist\<close>.\<close>

definition example_catalog :: "source list" where
  "example_catalog =
     [example_source ''A'' (PyStr ''1'') (PyStr ''0'') (PyStr ''0''),
      example_source ''B'' (PyStr ''1'') (PyStr ''1'') (PyStr ''0''),
      example_source ''A'' (PyStr ''0'') (PyStr ''0'') (PyStr ''1'')]"

definition example_fitted_catalog :: "source list" where
  "example_fitted_catalog =
     [(example_source ''A'' (PyStr ''1'') (PyStr ''0'') (PyStr ''0''))
        \<lparr>multi := Some [(''label'', PyStr ''A''), (''Dist'', PyFloat 7)]\<rparr>,
      example_source ''B'' (PyStr ''1'') (PyStr ''1'') (PyStr ''0''),
      (example_source ''A'' (PyStr ''1'') (PyStr ''0'') (PyStr ''0''))
        \<lparr>multi := Some [(''label'', PyStr ''A''), (''Dist'', PyFloat 2)]\<rparr>]"

text \<open>A fit result for the sources called \<open>A\<close>: the longitude was not fitted.\<close>

definition example_fit :: "string \<Rightarrow> multiOutput" where
  "example_fit label =
     [(''label'', PyStr label), (''L'', PyStr ''-1''), (''B'', PyFloat 3),
      (''start_l'', PyInt 79), (''start_b'', PyInt 2)]"




section \<open>Properties\<close>

subsection \<open>Builtins\<close>

lemma r_map_all_Inr:
  assumes "\<forall>x\<in>set xs. f x = Inr (g x)"
  shows "r_map f xs = Inr (map g xs)"
  using assms by (induction xs) simp_all

lemma scan_digits_binary:
  assumes "set s \<subseteq> {CHR ''0'', CHR ''1''}" and "s \<noteq> [] \<or> prev"
  shows "scan_digits 2 prev acc s
         = Some (foldl (\<lambda>acc c. 2 * acc + (if c = CHR ''1'' then 1 else 0)) acc s)"
  using assms
proof (induction s arbitrary: prev acc)
  case Nil
  then show ?case by simp
next
  case (Cons c s)
  then have c: "c = CHR ''0'' \<or> c = CHR ''1''" and s: "set s \<subseteq> {CHR ''0'', CHR ''1''}"
    by auto
  from c show ?case
    using Cons.IH[OF s, of True] by (auto simp: digit_value_def mult.commute)
qed

lemma strip_no_space:
  assumes "\<forall>c\<in>set s. \<not> py_isspace c"
  shows "strip s = s"
proof -
  have "dropWhile py_isspace s = s" using assms by (cases s) auto
  moreover have "dropWhile py_isspace (rev s) = rev s"
    using assms by (cases "rev s") (auto simp: dropWhile_eq_self_iff dest: arg_cong[where f=set])
  ultimately show ?thesis by (simp add: strip_def)
qed

text \<open>\<open>int(s, 2)\<close> on a non-empty string of binary digits is its value.\<close>

lemma py_int_str_binary:
  assumes "set s \<subseteq> {CHR ''0'', CHR ''1''}" and "s \<noteq> []"
  shows "py_int_str 2 s = Inr (int (binary_value s))"
proof -
  have sp: "strip s = s"
    using assms(1) by (intro strip_no_space) (auto simp: py_isspace_def)
  obtain c r where s: "s = c # r" using assms(2) by (cases s) auto
  with assms(1) have c: "c = CHR ''0'' \<or> c = CHR ''1''" by auto
  have sg: "strip_sign s = (False, s)" using c s by (auto simp: strip_sign_def)
  have "take 2 s \<noteq> ''0b'' \<and> take 2 s \<noteq> ''0B''"
    using assms(1) s by (cases r) auto
  then have pre: "strip_prefix_0b s = s" by (simp add: strip_prefix_0b_def)
  show ?thesis
    using scan_digits_binary[OF assms(1), of False 0] assms(2)
    by (simp add: py_int_str_def sp sg pre binary_value_def)
qed

lemmas eval_builtins = py_int_str_def strip_def py_isspace_def strip_sign_def
  strip_prefix_0b_def digit_value_def py_str_int_def str_nat.simps digit_char_def

lemmas eval_examples = example_env_def example_getFree_def example_source_def mk_param_def
  example_cutoff_source_def

subsection \<open>Parameters.checkEnergyBin\<close>




subsection \<open>The packed bitmask\<close>



text \<open>A flag that is the string \<open>"0"\<close> does not equal the number 0: the bitmask is
  computed, here with the index free.\<close>

lemma computeFixFlag_flux_str_0:
  "computeFixFlag example_env (example_source ''A'' (PyStr ''0'') (PyStr ''1'') (PyStr ''0''))
   = Inr ''8''"
  by (simp add: computeFixFlag_def eval_examples eval_builtins)

text \<open>A sum that starts from a number and meets a string raises TypeError.\<close>

lemma py_sum_number_str:
  assumes "is_number acc" and "\<forall>x\<in>set xs. \<exists>v. x = Inr v" and "\<exists>s. Inr (PyStr s) \<in> set xs"
  shows "py_sum acc xs = Inl TypeError"
  using assms
proof (induction xs arbitrary: acc)
  case Nil then show ?case by simp
next
  case (Cons x xs)
  from Cons.prems(2) obtain v where x: "x = Inr v" by auto
  show ?case
  proof (cases v)
    case (PyStr s)
    with x Cons.prems(1) show ?thesis by (cases acc) auto
  next
    case (PyInt i)
    with x Cons.prems have "\<exists>s. Inr (PyStr s) \<in> set xs" by auto
    moreover obtain acc' where "py_add acc v = Inr acc'" "is_number acc'"
      using PyInt Cons.prems(1) by (cases acc) auto
    ultimately show ?thesis using Cons.IH[of acc'] Cons.prems(2) x by simp
  next
    case (PyFloat r)
    with x Cons.prems have "\<exists>s. Inr (PyStr s) \<in> set xs" by auto
    moreover obtain acc' where "py_add acc v = Inr acc'" "is_number acc'"
      using PyFloat Cons.prems(1) by (cases acc) auto
    ultimately show ?thesis using Cons.IH[of acc'] Cons.prems(2) x by simp
  qed
qed

lemma py_eq_int_number: "py_eq v (PyInt i) \<Longrightarrow> is_number v"
  by (cases v) auto

text \<open>
  The branch for a spatial free field equal to 2 never returns a bitmask: the field is a
  number, the sum starts from it and meets the literal \<open>"0"\<close>.
\<close>

lemma computeFixFlag_spatial_free_2:
  assumes "py_eq (free (spatialModel src)) (PyInt 2)"
    and "\<And>n. \<exists>v. getFreeAttributeValueOf E (spectrum src) n = Inr v"
    and "getFreeAttributeValueOf E (spectrum src) ''Flux'' = Inr flux"
    and "\<not> py_eq flux (PyInt 0)"
  shows "computeFixFlag E src = Inl TypeError"
proof -
  let ?g = "getFreeAttributeValueOf E (spectrum src)"
  let ?xs = "[?g ''Curvature'', ?g ''Index2'', ?g ''CutoffEnergy'', ?g ''PivotEnergy'',
              ?g ''Index'', ?g ''Index1'', Inr (PyStr ''0''), ?g ''Flux'']"
  have "py_sum (free (spatialModel src)) ?xs = Inl TypeError"
  proof (rule py_sum_number_str)
    show "is_number (free (spatialModel src))" using assms(1) by (rule py_eq_int_number)
    show "\<forall>x\<in>set ?xs. \<exists>v. x = Inr v" using assms(2) by simp
    show "\<exists>s. Inr (PyStr s) \<in> set ?xs" by (rule exI[of _ "''0''"]) simp
  qed
  then show ?thesis using assms(1,3,4) by (simp add: computeFixFlag_def Let_def)
qed

text \<open>
  The other branch, on flags that are the characters \<open>0\<close> and \<open>1\<close>: the bitmask is the
  value of the eight digits Curvature, Index2, CutoffEnergy, PivotEnergy, Index, Index1,
  spatial free, Flux.
\<close>

lemma computeFixFlag_eight_digits:
  assumes "getFreeAttributeValueOf E (spectrum src) ''Curvature'' = Inr (PyStr [c1])"
    and "getFreeAttributeValueOf E (spectrum src) ''Index2'' = Inr (PyStr [c2])"
    and "getFreeAttributeValueOf E (spectrum src) ''CutoffEnergy'' = Inr (PyStr [c3])"
    and "getFreeAttributeValueOf E (spectrum src) ''PivotEnergy'' = Inr (PyStr [c4])"
    and "getFreeAttributeValueOf E (spectrum src) ''Index'' = Inr (PyStr [c5])"
    and "getFreeAttributeValueOf E (spectrum src) ''Index1'' = Inr (PyStr [c6])"
    and "free (spatialModel src) = PyStr [c7]"
    and "getFreeAttributeValueOf E (spectrum src) ''Flux'' = Inr (PyStr [c8])"
    and "set [c1, c2, c3, c4, c5, c6, c7, c8] \<subseteq> {CHR ''0'', CHR ''1''}"
  shows "computeFixFlag E src
         = Inr (py_str_int (int (binary_value [c1, c2, c3, c4, c5, c6, c7, c8])))"
proof -
  have "py_int_str 2 [c1, c2, c3, c4, c5, c6, c7, c8]
        = Inr (int (binary_value [c1, c2, c3, c4, c5, c6, c7, c8]))"
    using assms(9) by (intro py_int_str_binary) simp_all
  then show ?thesis
    using assms(1-8) by (simp add: computeFixFlag_def Let_def)
qed

text \<open>
  C1. For a source whose Flux parameter is free, the bitmask should be the base-2 value
  of nine flag digits, the spatial free field first, when that field equals 2, and of
  eight digits otherwise. On a source whose spatial free field is the number 2 the code
  raises TypeError instead of returning the value of nine digits; when the field is the
  string \<open>"2"\<close> the comparison with 2 fails, the eight digits hold a \<open>2\<close> and \<open>int(bitmask, 2)\<close>
  raises ValueError.
\<close>

theorem computeFixFlag_spatial_free_2_fails:
  "computeFixFlag example_env (example_source ''A'' (PyStr ''1'') (PyStr ''1'') (PyInt 2))
     = Inl TypeError
   \<and> computeFixFlag example_env (example_source ''A'' (PyStr ''1'') (PyStr ''1'') (PyStr ''2''))
     = Inl ValueError"
  by (simp add: computeFixFlag_def eval_examples eval_builtins)

subsection \<open>The lines of the encoded text\<close>

lemma getParamAttributeWhere_present:
  assumes "n \<in> set (map pname ps)"
  shows "getParamAttributeWhere ps a n = Inr (paramAttribute ps a n)"
proof -
  from assms have "filter (\<lambda>param. pname param = n) ps \<noteq> []"
    by (auto simp: filter_empty_conv)
  then obtain p r where "rev (filter (\<lambda>param. pname param = n) ps) = p # r"
    by (cases "rev (filter (\<lambda>param. pname param = n) ps)") auto
  then show ?thesis
    by (simp add: getParamAttributeWhere_def pop_last_def paramAttribute_def rev_map)
qed

lemma min_max_present:
  assumes "n \<in> set (map pname (sparameters (spectrum src)))"
  shows "min_max src n = Inr (paramAttribute (sparameters (spectrum src)) pmin n @ '' ''
                              @ paramAttribute (sparameters (spectrum src)) pmax n)"
  using assms by (simp add: min_max_def getParamAttributeWhere_present)

lemmas convert_defs = convertSource_def family_values_def index_bounds_def family_bounds_def
  spec_fields_def spec_gaps_def spec_index_name_def Let_def

lemma convertSource_fields:
  assumes enc: "encodable src" and ff: "computeFixFlag E src = Inr (bitmask src)"
  shows "convertSource E src
         = Inr (spaced (spec_fields bitmask src) (spec_gaps src) @ [CHR 0x0A])"
proof -
  let ?ty = "stype (spectrum src)"
  let ?names = "set (map pname (sparameters (spectrum src)))"
  have flux: "pop_last (map pvalue (filter (\<lambda>param. pname param = ''Flux'')
                                      (sparameters (spectrum src))))
              = getParamAttributeWhere (sparameters (spectrum src)) pvalue ''Flux''"
    by (simp add: getParamAttributeWhere_def)
  have pos: "''GLON'' \<in> set (map pname (parameters (spatialModel src)))"
            "''GLAT'' \<in> set (map pname (parameters (spatialModel src)))"
    using enc by (simp_all add: encodable_def)
  have req: "list_all (\<lambda>n. n \<in> ?names) (spec_required src)"
    using enc by (simp add: encodable_def)
  consider (pl) "?ty = ''PowerLaw''" | (ec) "?ty = ''PLExpCutoff''"
    | (sec) "?ty = ''PLSuperExpCutoff''"
    | (other) "?ty \<noteq> ''PowerLaw''" "?ty \<noteq> ''PLExpCutoff''" "?ty \<noteq> ''PLSuperExpCutoff''"
    by blast
  then show ?thesis
  proof cases
    case pl
    with req have "''Flux'' \<in> ?names" "''Index'' \<in> ?names"
      by (simp_all add: spec_required_def spec_index_name_def)
    with pl pos ff show ?thesis
      by (simp add: convert_defs flux getParamAttributeWhere_present min_max_present)
  next
    case ec
    with req have "''Flux'' \<in> ?names" "''Index'' \<in> ?names" "''CutoffEnergy'' \<in> ?names"
      by (simp_all add: spec_required_def spec_index_name_def)
    with ec pos ff show ?thesis
      by (simp add: convert_defs flux getParamAttributeWhere_present min_max_present
          eval_nat_numeral)
  next
    case sec
    with req have "''Flux'' \<in> ?names" "''Index1'' \<in> ?names" "''CutoffEnergy'' \<in> ?names"
        "''Index2'' \<in> ?names"
      by (simp_all add: spec_required_def spec_index_name_def)
    with sec pos ff show ?thesis
      by (simp add: convert_defs flux getParamAttributeWhere_present min_max_present)
  next
    case other
    with req have "''Flux'' \<in> ?names" "''Index'' \<in> ?names" "''PivotEnergy'' \<in> ?names"
        "''Curvature'' \<in> ?names"
      by (simp_all add: spec_required_def spec_index_name_def)
    with other pos ff show ?thesis
      by (simp add: convert_defs flux getParamAttributeWhere_present min_max_present)
  qed
qed

text \<open>
  C3. For a catalog whose sources hold the parameters that the encoder reads, and whose
  bitmasks can be computed, the encoder returns one line per source, closed by a newline.
  The line holds the 17 fields of \<open>spec_fields\<close> in this order, separated by blanks: flux,
  GLON, GLAT, index (Index1 for PLSuperExpCutoff, Index otherwise), bitmask, \<open>2\<close>, name,
  location limit, the discriminator of the family with its values (\<open>0 0 0\<close> for PowerLaw),
  the bounds of the index, the bounds of the parameters of the family with \<open>-1\<close> for those
  that do not apply (\<open>-1 -1 -1 -1\<close> for PowerLaw). One blank stands between two fields,
  two before the sentinels of a PLExpCutoff line.
\<close>

theorem convertToAgileFormat_lines:
  assumes "\<forall>src\<in>set sources. encodable src \<and> computeFixFlag E src = Inr (bitmask src)"
  shows "convertToAgileFormat E sources
         = Inr (concat (map (\<lambda>src. spaced (spec_fields bitmask src) (spec_gaps src) @ [CHR 0x0A])
                          sources))"
proof -
  have "\<forall>src\<in>set sources.
          convertSource E src = Inr (spaced (spec_fields bitmask src) (spec_gaps src) @ [CHR 0x0A])"
    using assms convertSource_fields by blast
  then have "r_map (convertSource E) sources
             = Inr (map (\<lambda>src. spaced (spec_fields bitmask src) (spec_gaps src) @ [CHR 0x0A])
                      sources)"
    by (rule r_map_all_Inr)
  then show ?thesis
    by (simp add: convertToAgileFormat_def)
qed

lemma ex_fixflag_A:
  "computeFixFlag example_env (example_source ''A'' (PyStr ''1'') (PyStr ''1'') (PyStr ''1''))
   = Inr ''11''"
  by (simp add: computeFixFlag_def eval_examples eval_builtins)

lemma ex_fixflag_cutoff: "computeFixFlag example_env example_cutoff_source = Inr ''1''"
  by (simp add: computeFixFlag_def eval_examples eval_builtins)

lemma ex_encodable:
  "encodable (example_source n a b c)" "encodable example_cutoff_source"
  by (simp_all add: encodable_def spec_required_def spec_index_name_def example_source_def
      example_cutoff_source_def mk_param_def)

lemma ex_line_A:
  "spaced (spec_fields (\<lambda>src. if name src = ''A'' then ''11'' else ''1'')
             (example_source ''A'' (PyStr ''1'') (PyStr ''1'') (PyStr ''1'')))
          (spec_gaps (example_source ''A'' (PyStr ''1'') (PyStr ''1'') (PyStr ''1'')))
   = ''7e-08 80 1 2 11 2 A 0 0 0 0 1 3 -1 -1 -1 -1''"
  by (simp add: spec_fields_def spec_gaps_def spec_index_name_def paramAttribute_def
      example_source_def mk_param_def)

lemma ex_line_cutoff:
  "spaced (spec_fields (\<lambda>src. if name src = ''A'' then ''11'' else ''1'') example_cutoff_source)
          (spec_gaps example_cutoff_source)
   = ''9e-07 184 -5 2 1 2 CRAB 0 1 3000 0 1 3 20 10000  -1 -1''"
  by (simp add: spec_fields_def spec_gaps_def spec_index_name_def paramAttribute_def
      example_cutoff_source_def mk_param_def numeral_2_eq_2)

theorem convertToAgileFormat_lines_witness:
  "convertToAgileFormat example_env
     [example_source ''A'' (PyStr ''1'') (PyStr ''1'') (PyStr ''1''), example_cutoff_source]
   = Inr (''7e-08 80 1 2 11 2 A 0 0 0 0 1 3 -1 -1 -1 -1'' @ [CHR 0x0A]
          @ ''9e-07 184 -5 2 1 2 CRAB 0 1 3000 0 1 3 20 10000  -1 -1'' @ [CHR 0x0A])"
proof -
  have n: "name (example_source ''A'' (PyStr ''1'') (PyStr ''1'') (PyStr ''1'')) = ''A''"
          "name example_cutoff_source \<noteq> ''A''"
    by (simp_all add: example_source_def example_cutoff_source_def)
  have h: "\<forall>src\<in>set [example_source ''A'' (PyStr ''1'') (PyStr ''1'') (PyStr ''1''),
                         example_cutoff_source].
             encodable src
             \<and> computeFixFlag example_env src = Inr (if name src = ''A'' then ''11'' else ''1'')"
    by (simp add: ex_encodable ex_fixflag_A ex_fixflag_cutoff n)
  show ?thesis
    using convertToAgileFormat_lines[OF h] by (simp add: ex_line_A ex_line_cutoff)
qed

subsection \<open>The selection engine\<close>

lemma r_map_length: "r_map f xs = Inr ys \<Longrightarrow> length ys = length xs"
proof (induction xs arbitrary: ys)
  case Nil then show ?case by simp
next
  case (Cons x xs)
  then show ?case
    by (cases "f x"; cases "r_map f xs") auto
qed

lemma selectLoop_filter:
  "selectLoop E f v srcs = (calls, Inr rs) \<Longrightarrow> rs = filter (passes E f v) srcs"
proof (induction srcs arbitrary: calls rs)
  case Nil then show ?case by simp
next
  case (Cons src rest)
  show ?case
  proof (cases "skipped E v src")
    case True
    with Cons show ?thesis by (simp add: passes_def)
  next
    case False
    with Cons.prems obtain args b calls' rs' where
      a: "r_map (paramValue E src) v = Inr args" and b: "call f args = Inr b"
      and r: "selectLoop E f v rest = (calls', Inr rs')"
      and rs: "rs = (if b then src # rs' else rs')"
      by (auto split: sum.splits prod.splits if_splits elim!: r_bind.elims)
    from Cons.IH[OF r] a b rs False show ?thesis by (simp add: passes_def)
  qed
qed

lemma selectLoop_invocations:
  "selectLoop E f v srcs = (calls, r) \<Longrightarrow>
     length calls \<le> length (filter (\<lambda>s. \<not> skipped E v s) srcs)
     \<and> list_all2 (\<lambda>args src. r_map (paramValue E src) v = Inr args) calls
          (take (length calls) (filter (\<lambda>s. \<not> skipped E v s) srcs))"
proof (induction srcs arbitrary: calls r)
  case Nil then show ?case by simp
next
  case (Cons src rest)
  show ?case
  proof (cases "skipped E v src")
    case True
    with Cons show ?thesis by simp
  next
    case False
    show ?thesis
    proof (cases "r_map (paramValue E src) v")
      case (Inl e)
      with False Cons.prems show ?thesis by simp
    next
      case (Inr args)
      show ?thesis
      proof (cases "call f args")
        case (Inl e)
        with Inr False Cons.prems show ?thesis by auto
      next
        case (Inr b)
        obtain calls' r' where r: "selectLoop E f v rest = (calls', r')"
          by (cases "selectLoop E f v rest")
        with \<open>r_map (paramValue E src) v = Inr args\<close> Inr False Cons.prems
        have "calls = args # calls'" by simp
        with Cons.IH[OF r] False \<open>r_map (paramValue E src) v = Inr args\<close>
        show ?thesis by simp
      qed
    qed
  qed
qed

lemma select_unfold:
  "selectSourcesWithLambda E f sources =
     (if validated_params E f = []
      then \<lparr>warnings = map WarnNotSupported
                (filter (\<lambda>up. up \<notin> set (getSelectionParams E)) (signature_parameters f))
              @ [WarnNoSelectionParams],
            invocations = [], selected = Inr []\<rparr>
      else \<lparr>warnings = map WarnNotSupported
                (filter (\<lambda>up. up \<notin> set (getSelectionParams E)) (signature_parameters f)),
            invocations = fst (selectLoop E f (validated_params E f) sources),
            selected = snd (selectLoop E f (validated_params E f) sources)\<rparr>)"
  by (simp add: selectSourcesWithLambda_def validateSelectionParams_def validated_params_def
      split: prod.splits)

lemma select_selected:
  assumes "selected (selectSourcesWithLambda E f sources) = Inr rs"
  shows "rs = filter (satisfies E f) sources"
proof (cases "validated_params E f = []")
  case True
  with assms show ?thesis by (simp add: select_unfold satisfies_def)
next
  case False
  with assms have "selectLoop E f (validated_params E f) sources
                   = (fst (selectLoop E f (validated_params E f) sources), Inr rs)"
    by (simp add: select_unfold prod_eq_iff)
  from selectLoop_filter[OF this] False show ?thesis
    by (simp add: satisfies_def cong: filter_cong)
qed

lemma select_invocations:
  "length (invocations (selectSourcesWithLambda E f sources))
     \<le> length (filter (eligible E f) sources)
   \<and> list_all2 (\<lambda>args src. r_map (paramValue E src) (validated_params E f) = Inr args)
        (invocations (selectSourcesWithLambda E f sources))
        (take (length (invocations (selectSourcesWithLambda E f sources)))
           (filter (eligible E f) sources))"
proof (cases "validated_params E f = []")
  case True
  then show ?thesis by (simp add: select_unfold)
next
  case False
  have "selectLoop E f (validated_params E f) sources
        = (fst (selectLoop E f (validated_params E f) sources),
           snd (selectLoop E f (validated_params E f) sources))" by simp
  from selectLoop_invocations[OF this] False show ?thesis
    by (simp add: select_unfold eligible_def[abs_def])
qed

lemmas eval_select = selectSourcesWithLambda_def validateSelectionParams_def skipped_def
  needMultiParams_def paramValue_def validated_params_def

lemmas eval_catalog = example_env_def example_catalog_def example_fitted_catalog_def
  example_source_def mk_param_def

text \<open>
  C7. The lambda is never called with a value for a parameter that is not in the
  registry: the names that are not registered are dropped, each with a warning, and
  every call carries exactly the values of the validated parameters of one source of the
  catalog, one value per validated parameter. When no parameter is validated, the
  selection returns the empty list and the lambda is not called.
\<close>

theorem select_invokes_validated_only:
  "set (validated_params E f) \<subseteq> set (getSelectionParams E) \<inter> set (signature_parameters f)
   \<and> warnings (selectSourcesWithLambda E f sources)
       = map WarnNotSupported
           (filter (\<lambda>up. up \<notin> set (getSelectionParams E)) (signature_parameters f))
         @ (if validated_params E f = [] then [WarnNoSelectionParams] else [])
   \<and> (\<forall>args\<in>set (invocations (selectSourcesWithLambda E f sources)).
         length args = length (validated_params E f)
         \<and> (\<exists>src\<in>set sources.
               r_map (paramValue E src) (validated_params E f) = Inr args))
   \<and> (validated_params E f = []
        \<longrightarrow> invocations (selectSourcesWithLambda E f sources) = []
            \<and> selected (selectSourcesWithLambda E f sources) = Inr [])"
proof -
  let ?run = "selectSourcesWithLambda E f sources"
  let ?v = "validated_params E f"
  have 1: "set ?v \<subseteq> set (getSelectionParams E) \<inter> set (signature_parameters f)"
    by (auto simp: validated_params_def)
  have 2: "warnings ?run = map WarnNotSupported
           (filter (\<lambda>up. up \<notin> set (getSelectionParams E)) (signature_parameters f))
         @ (if ?v = [] then [WarnNoSelectionParams] else [])"
    by (simp add: select_unfold)
  have 3: "\<forall>args\<in>set (invocations ?run).
         length args = length ?v \<and> (\<exists>src\<in>set sources. r_map (paramValue E src) ?v = Inr args)"
  proof
    fix args assume "args \<in> set (invocations ?run)"
    then obtain i where i: "i < length (invocations ?run)" "invocations ?run ! i = args"
      by (auto simp: in_set_conv_nth)
    let ?el = "take (length (invocations ?run)) (filter (eligible E f) sources)"
    from select_invocations[of E f sources]
    have l: "list_all2 (\<lambda>args src. r_map (paramValue E src) ?v = Inr args) (invocations ?run) ?el"
      by simp
    from list_all2_nthD[OF l i(1)] i(2)
    have a: "r_map (paramValue E (?el ! i)) ?v = Inr args" by simp
    have "length (invocations ?run) = length ?el" by (rule list_all2_lengthD[OF l])
    with i(1) have "i < length ?el" by linarith
    then have "?el ! i \<in> set ?el" by (rule nth_mem)
    then have "?el ! i \<in> set sources" by (auto dest: in_set_takeD)
    with a r_map_length[OF a] show "length args = length ?v
        \<and> (\<exists>src\<in>set sources. r_map (paramValue E src) ?v = Inr args)" by auto
  qed
  have 4: "?v = [] \<longrightarrow> invocations ?run = [] \<and> selected ?run = Inr []"
    by (simp add: select_unfold)
  show ?thesis by (rule conjI[OF 1 conjI[OF 2 conjI[OF 3 4]]])
qed


theorem select_invokes_validated_only_witness:
  "validated_params example_env example_lambda_default = [''Name'']
   \<and> warnings (selectSourcesWithLambda example_env example_lambda_default example_catalog)
       = [WarnNotSupported ''Bogus'']
   \<and> invocations (selectSourcesWithLambda example_env example_lambda_default example_catalog)
       = [[PyStr ''A''], [PyStr ''B''], [PyStr ''A'']]
   \<and> validated_params example_env example_lambda_bogus = []
   \<and> invocations (selectSourcesWithLambda example_env example_lambda_bogus example_catalog) = []
   \<and> selected (selectSourcesWithLambda example_env example_lambda_bogus example_catalog) = Inr []"
  using select_invokes_validated_only[of example_env example_lambda_bogus example_catalog]
  by (simp add: eval_select eval_catalog example_lambda_default_def example_lambda_bogus_def)





subsection \<open>The mutators\<close>

text \<open>
  C9. When \<open>deleteSources\<close> returns, it returns the sources that satisfy the lambda, and
  the catalog holds the other sources in their order: the deleted and the remaining
  sources together are the catalog as it was, a source that was not selected stays
  (also when it has the name of a deleted one), and when nothing is selected the catalog
  is unchanged.
\<close>

theorem deleteSources_removes_selected:
  assumes "deleteSources E f catalog = (Inr deleted, catalog')"
  shows "deleted = filter (satisfies E f) catalog
       \<and> catalog' = filter (\<lambda>s. \<not> satisfies E f s) catalog
       \<and> mset deleted + mset catalog' = mset catalog
       \<and> subseq catalog' catalog
       \<and> (\<forall>s\<in>set catalog. s \<notin> set deleted \<longrightarrow> s \<in> set catalog')
       \<and> (deleted = [] \<longrightarrow> catalog' = catalog)"
proof -
  from assms have sel: "selected (selectSourcesWithLambda E f catalog) = Inr deleted"
    and c: "catalog' = filter (\<lambda>s. s \<notin> set deleted) catalog"
    by (auto simp: deleteSources_def split: sum.splits)
  from select_selected[OF sel] have d: "deleted = filter (satisfies E f) catalog" .
  have c': "catalog' = filter (\<lambda>s. \<not> satisfies E f s) catalog"
    unfolding c d by (rule filter_cong) auto
  have m: "mset deleted + mset catalog' = mset catalog"
    unfolding d c' by (induction catalog) auto
  have s: "subseq catalog' catalog" unfolding c' by simp
  have k: "\<forall>s\<in>set catalog. s \<notin> set deleted \<longrightarrow> s \<in> set catalog'"
    unfolding c by simp
  have e: "deleted = [] \<longrightarrow> catalog' = catalog" unfolding c by simp
  show ?thesis
    by (rule conjI[OF d conjI[OF c' conjI[OF m conjI[OF s conjI[OF k e]]]]])
qed


lemma example_delete:
  "deleteSources example_env example_lambda_dist example_fitted_catalog
   = (Inr [example_fitted_catalog ! 0], [example_fitted_catalog ! 1, example_fitted_catalog ! 2])"
  by (simp add: deleteSources_def eval_select eval_catalog example_lambda_dist_def)

theorem deleteSources_removes_selected_witness:
  "deleteSources example_env example_lambda_dist example_fitted_catalog
     = (Inr [example_fitted_catalog ! 0], [example_fitted_catalog ! 1, example_fitted_catalog ! 2])
   \<and> name (example_fitted_catalog ! 2) = name (example_fitted_catalog ! 0)
   \<and> mset [example_fitted_catalog ! 0]
       + mset [example_fitted_catalog ! 1, example_fitted_catalog ! 2]
     = mset example_fitted_catalog"
  using deleteSources_removes_selected[OF example_delete] example_delete
  by (simp add: eval_catalog)



subsection \<open>\<open>updateMulti\<close>\<close>

lemma selectLoop_nameIsLabel:
  assumes "''Name'' \<notin> set (getSelectionParamsMulti E)" and "map_of data ''label'' = Some label"
  shows "snd (selectLoop E (nameIsLabel data) [''Name''] srcs)
         = Inr (filter (\<lambda>s. py_eq (PyStr (name s)) label) srcs)"
proof (induction srcs)
  case Nil then show ?case by simp
next
  case (Cons s srcs)
  have sk: "\<not> skipped E [''Name''] s"
    using assms by (simp add: skipped_def needMultiParams_def)
  obtain calls r where r: "selectLoop E (nameIsLabel data) [''Name''] srcs = (calls, r)"
    by (cases "selectLoop E (nameIsLabel data) [''Name''] srcs")
  with Cons have "r = Inr (filter (\<lambda>s. py_eq (PyStr (name s)) label) srcs)" by simp
  moreover have "call (nameIsLabel data) [PyStr (name s)] = Inr (py_eq (PyStr (name s)) label)"
    using assms(2) by (simp add: nameIsLabel_def)
  ultimately show ?case using r sk
    by (simp add: paramValue_def)
qed

lemma select_nameIsLabel:
  assumes "''Name'' \<in> set (getSelectionParams E)"
    and "''Name'' \<notin> set (getSelectionParamsMulti E)" and "map_of data ''label'' = Some label"
  shows "selected (selectSourcesWithLambda E (nameIsLabel data) srcs)
         = Inr (filter (\<lambda>s. py_eq (PyStr (name s)) label) srcs)"
proof -
  obtain calls r where r: "selectLoop E (nameIsLabel data) [''Name''] srcs = (calls, r)"
    by (cases "selectLoop E (nameIsLabel data) [''Name''] srcs")
  with selectLoop_nameIsLabel[OF assms(2,3), of srcs]
  have "r = Inr (filter (\<lambda>s. py_eq (PyStr (name s)) label) srcs)" by simp
  moreover have "signature_parameters (nameIsLabel data) = [''Name'']"
    by (simp add: nameIsLabel_def)
  ultimately show ?thesis using r assms(1)
    by (simp add: selectSourcesWithLambda_def validateSelectionParams_def)
qed

lemma update_Dist_twice:
  "AList.update k v (AList.update k v al) = AList.update k v al"
  by (induction al) auto

lemma attrFloat_update_Dist:
  "a \<noteq> ''Dist'' \<Longrightarrow> attrFloat E (AList.update ''Dist'' v data) a = attrFloat E data a"
  by (simp add: attrFloat_def update_conv')

lemma updateDist_ok:
  assumes "positionReadable E src"
    and "attrFloat E data ''L'' = Inr l" and "attrFloat E data ''B'' = Inr b"
    and "l = - 1 \<longrightarrow> attrFloat E data ''start_l'' = Inr sl"
    and "b = - 1 \<longrightarrow> attrFloat E data ''start_b'' = Inr sb"
  shows "updateDist E cL cB data src
         = Inr (AList.update ''Dist''
                  (PyFloat (Astro_distance E (resolved l sl) (resolved b sb) cL cB)) data)"
proof -
  from assms(1) obtain v w x y where
    "getParamAttributeWhere (parameters (spatialModel src)) pvalue ''GLON'' = Inr v"
    "float_of_str E v = Some x"
    "getParamAttributeWhere (parameters (spatialModel src)) pvalue ''GLAT'' = Inr w"
    "float_of_str E w = Some y"
    by (auto simp: positionReadable_def split: sum.splits)
  with assms(2-5) show ?thesis
    by (simp add: updateDist_def resolved_def)
qed

lemma updateLoop_ok:
  assumes "\<forall>src\<in>set found. positionReadable E src"
    and "attrFloat E data ''L'' = Inr l" and "attrFloat E data ''B'' = Inr b"
    and "l = - 1 \<longrightarrow> attrFloat E data ''start_l'' = Inr sl"
    and "b = - 1 \<longrightarrow> attrFloat E data ''start_b'' = Inr sb"
  shows "updateLoop E cL cB data found
         = (length found,
            (if found = [] then data
             else AList.update ''Dist''
                    (PyFloat (Astro_distance E (resolved l sl) (resolved b sb) cL cB)) data),
            None)"
  using assms
proof (induction found arbitrary: data)
  case Nil then show ?case by simp
next
  case (Cons src rest)
  let ?d = "AList.update ''Dist''
              (PyFloat (Astro_distance E (resolved l sl) (resolved b sb) cL cB)) data"
  have u: "updateDist E cL cB data src = Inr ?d"
    using Cons.prems by (intro updateDist_ok) simp_all
  have "updateLoop E cL cB ?d rest
        = (length rest,
           (if rest = [] then ?d
            else AList.update ''Dist''
                   (PyFloat (Astro_distance E (resolved l sl) (resolved b sb) cL cB)) ?d),
           None)"
    using Cons.prems by (intro Cons.IH) (simp_all add: attrFloat_update_Dist)
  with u show ?case by (simp add: update_Dist_twice)
qed

lemma attachMulti_all:
  assumes "length (filter (\<lambda>s. s \<in> set found) catalog) \<le> k"
  shows "attachMulti k data found catalog
         = map (\<lambda>s. if s \<in> set found then s\<lparr>multi := Some data\<rparr> else s) catalog"
  using assms by (induction catalog arbitrary: k) auto

text \<open>
  C4. With \<open>Name\<close> in the registry and a fit result that has a label: when no source of
  the catalog has the label as its name, \<open>updateMulti\<close> ends with \<open>exit(1)\<close> and changes
  nothing. Otherwise, when the position of the matching sources and the coordinates of
  the fit result can be read, every matching source gets the fit result as \<open>multi\<close>, and
  \<open>Dist\<close> of the fit result is \<open>Astro.distance\<close> between the map center and the position
  \<open>(L, B)\<close> of the fit result, where a coordinate equal to \<open>-1\<close> is replaced by the initial
  one (\<open>start_l\<close>, \<open>start_b\<close>).
\<close>

theorem updateMulti_attaches_and_sets_Dist:
  assumes "''Name'' \<in> set (getSelectionParams E)"
    and "''Name'' \<notin> set (getSelectionParamsMulti E)"
    and "map_of data ''label'' = Some label"
  shows "((\<forall>s\<in>set catalog. \<not> py_eq (PyStr (name s)) label)
           \<longrightarrow> updateMulti E data mapCenterL mapCenterB catalog
               = (Inl (SystemExit 1), data, catalog))
       \<and> ((\<exists>s\<in>set catalog. py_eq (PyStr (name s)) label)
           \<and> (\<forall>s\<in>set catalog. py_eq (PyStr (name s)) label \<longrightarrow> positionReadable E s)
           \<and> attrFloat E data ''L'' = Inr l \<and> attrFloat E data ''B'' = Inr b
           \<and> (l = - 1 \<longrightarrow> attrFloat E data ''start_l'' = Inr start_l)
           \<and> (b = - 1 \<longrightarrow> attrFloat E data ''start_b'' = Inr start_b)
           \<longrightarrow> updateMulti E data mapCenterL mapCenterB catalog
               = (Inr (),
                  AList.update ''Dist''
                    (PyFloat (Astro_distance E (if l = - 1 then start_l else l)
                                (if b = - 1 then start_b else b) mapCenterL mapCenterB)) data,
                  map (\<lambda>s. if py_eq (PyStr (name s)) label
                            then s\<lparr>multi := Some (AList.update ''Dist''
                                   (PyFloat (Astro_distance E (if l = - 1 then start_l else l)
                                      (if b = - 1 then start_b else b) mapCenterL mapCenterB))
                                   data)\<rparr>
                            else s) catalog))"
proof -
  let ?P = "\<lambda>s. py_eq (PyStr (name s)) label"
  let ?found = "filter ?P catalog"
  have sel: "selected (selectSourcesWithLambda E (nameIsLabel data) catalog) = Inr ?found"
    using assms by (rule select_nameIsLabel)
  have 1: "(\<forall>s\<in>set catalog. \<not> ?P s)
           \<longrightarrow> updateMulti E data mapCenterL mapCenterB catalog
               = (Inl (SystemExit 1), data, catalog)"
  proof
    assume "\<forall>s\<in>set catalog. \<not> ?P s"
    then have "?found = []" by (simp add: filter_empty_conv)
    with sel show "updateMulti E data mapCenterL mapCenterB catalog
               = (Inl (SystemExit 1), data, catalog)"
      by (simp add: updateMulti_def)
  qed
  let ?d = "AList.update ''Dist''
              (PyFloat (Astro_distance E (if l = - 1 then start_l else l)
                          (if b = - 1 then start_b else b) mapCenterL mapCenterB)) data"
  have 2: "(\<exists>s\<in>set catalog. ?P s)
           \<and> (\<forall>s\<in>set catalog. ?P s \<longrightarrow> positionReadable E s)
           \<and> attrFloat E data ''L'' = Inr l \<and> attrFloat E data ''B'' = Inr b
           \<and> (l = - 1 \<longrightarrow> attrFloat E data ''start_l'' = Inr start_l)
           \<and> (b = - 1 \<longrightarrow> attrFloat E data ''start_b'' = Inr start_b)
           \<longrightarrow> updateMulti E data mapCenterL mapCenterB catalog
               = (Inr (), ?d, map (\<lambda>s. if ?P s then s\<lparr>multi := Some ?d\<rparr> else s) catalog)"
  proof
    assume a: "(\<exists>s\<in>set catalog. ?P s)
           \<and> (\<forall>s\<in>set catalog. ?P s \<longrightarrow> positionReadable E s)
           \<and> attrFloat E data ''L'' = Inr l \<and> attrFloat E data ''B'' = Inr b
           \<and> (l = - 1 \<longrightarrow> attrFloat E data ''start_l'' = Inr start_l)
           \<and> (b = - 1 \<longrightarrow> attrFloat E data ''start_b'' = Inr start_b)"
    then have ne: "?found \<noteq> []" by (auto simp: filter_empty_conv)
    have pr: "\<forall>src\<in>set ?found. positionReadable E src" using a by auto
    have loop: "updateLoop E mapCenterL mapCenterB data ?found = (length ?found, ?d, None)"
      using updateLoop_ok[OF pr, of data l b start_l start_b mapCenterL mapCenterB] a ne
      by (simp add: resolved_def)
    have "length (filter (\<lambda>s. s \<in> set ?found) catalog) \<le> length ?found"
      by (simp cong: filter_cong)
    from attachMulti_all[OF this]
    have att: "attachMulti (length ?found) ?d ?found catalog
               = map (\<lambda>s. if ?P s then s\<lparr>multi := Some ?d\<rparr> else s) catalog"
      by (simp cong: map_cong)
    from sel ne loop att
    show "updateMulti E data mapCenterL mapCenterB catalog
               = (Inr (), ?d, map (\<lambda>s. if ?P s then s\<lparr>multi := Some ?d\<rparr> else s) catalog)"
      by (simp add: updateMulti_def)
  qed
  show ?thesis by (rule conjI[OF 1 2])
qed

lemma example_fit_floats:
  "attrFloat example_env (example_fit n) ''L'' = Inr (- 1)"
  "attrFloat example_env (example_fit n) ''B'' = Inr 3"
  "attrFloat example_env (example_fit n) ''start_l'' = Inr 79"
  "map_of (example_fit n) ''label'' = Some (PyStr n)"
  by (simp_all add: attrFloat_def example_fit_def example_env_def eval_builtins)

lemma example_positions: "\<forall>s\<in>set example_catalog. positionReadable example_env s"
  by (simp add: positionReadable_def getParamAttributeWhere_def pop_last_def eval_catalog
      eval_builtins)

theorem updateMulti_attaches_and_sets_Dist_witness:
  "updateMulti example_env (example_fit ''C'') 80 1 example_catalog
     = (Inl (SystemExit 1), example_fit ''C'', example_catalog)
   \<and> updateMulti example_env (example_fit ''A'') 80 1 example_catalog
     = (Inr (), example_fit ''A'' @ [(''Dist'', PyFloat 3)],
        [(example_catalog ! 0)\<lparr>multi := Some (example_fit ''A'' @ [(''Dist'', PyFloat 3)])\<rparr>,
         example_catalog ! 1,
         (example_catalog ! 2)\<lparr>multi := Some (example_fit ''A'' @ [(''Dist'', PyFloat 3)])\<rparr>])"
proof -
  have r: "''Name'' \<in> set (getSelectionParams example_env)"
          "''Name'' \<notin> set (getSelectionParamsMulti example_env)"
    by (simp_all add: example_env_def)
  have d: "Astro_distance example_env 79 3 80 1 = 3"
    by (simp add: example_env_def example_distance_def)
  have u: "AList.update ''Dist'' (PyFloat 3) (example_fit ''A'')
           = example_fit ''A'' @ [(''Dist'', PyFloat 3)]"
    by (simp add: example_fit_def)
  have n: "map name example_catalog = [''A'', ''B'', ''A'']"
    by (simp add: eval_catalog)
  from updateMulti_attaches_and_sets_Dist[OF r example_fit_floats(4)[of "''C''"],
      where catalog = example_catalog and mapCenterL = 80 and mapCenterB = 1
        and l = "- 1" and b = 3 and start_l = 79 and start_b = 0]
  have 1: "updateMulti example_env (example_fit ''C'') 80 1 example_catalog
     = (Inl (SystemExit 1), example_fit ''C'', example_catalog)"
    using n by (simp add: example_catalog_def)
  from updateMulti_attaches_and_sets_Dist[OF r example_fit_floats(4)[of "''A''"],
      where catalog = example_catalog and mapCenterL = 80 and mapCenterB = 1
        and l = "- 1" and b = 3 and start_l = 79 and start_b = 0]
  have 2: "updateMulti example_env (example_fit ''A'') 80 1 example_catalog
     = (Inr (), example_fit ''A'' @ [(''Dist'', PyFloat 3)],
        [(example_catalog ! 0)\<lparr>multi := Some (example_fit ''A'' @ [(''Dist'', PyFloat 3)])\<rparr>,
         example_catalog ! 1,
         (example_catalog ! 2)\<lparr>multi := Some (example_fit ''A'' @ [(''Dist'', PyFloat 3)])\<rparr>])"
    using n example_positions example_fit_floats(1-3) d u
    by (simp add: example_catalog_def)
  from 1 2 show ?thesis by (rule conjI)
qed

subsection \<open>The parser of the fitter's output\<close>



































end
